theory Spec2Isabelle
  imports Main "HOL-Library.Sublist"
begin

section \<open>MultilineBashOperator.execute\<close>

text \<open>
  A shallow embedding of \<^verbatim>\<open>MultilineBashOperator.execute\<close> from
  \<^verbatim>\<open>airflow/plugins/operators/multiline_bash_operator.py\<close>.

  Python text (\<^verbatim>\<open>str\<close>) is a list of Unicode code points, \<^verbatim>\<open>bytes\<close> is a list
  of 8-bit characters. Dictionaries whose entries are only looked up are maps; the
  context variables, which the code iterates over, are an association list in the
  dictionary's order. Dictionary objects live in a store, since \<^verbatim>\<open>env = self.env\<close>
  makes the local name an alias of the operator's attribute.

  What lies outside the repository is a parameter (record \<open>platform\<close>): the name of the
  temporary directory root, the random names chosen by \<^verbatim>\<open>tempfile\<close>, the codec
  registry behind \<^verbatim>\<open>bytes.decode\<close> (\<open>None\<close> for an encoding it does not know, and a
  decoder that gives \<open>None\<close> on bytes it rejects), and the behaviour of the child process. A run of
  the child is its complete combined output, its exit status and the file system as it
  leaves it: the model covers invocations whose child closes its output and exits.
  Failures that are functions of the data (encoding the script, decoding the output) are
  modelled, and so is the failure of \<^verbatim>\<open>os.unlink\<close> on leaving
  \<^verbatim>\<open>NamedTemporaryFile\<close> when the child has removed or replaced its script. Other
  failures of the operating system (\<^verbatim>\<open>OSError\<close> from creating files, from removing the
  directory tree, or from spawning) are not.
\<close>

subsection \<open>Text, bytes and errors\<close>

type_synonym bytes = "char list"
type_synonym str = "nat list"

text \<open>A text literal: the code points of an 8-bit string.\<close>

definition u :: "string \<Rightarrow> str" where
  "u s = map of_char s"

datatype error =
    AirflowException str
  | UnicodeEncodeError
  | UnicodeDecodeError
  | LookupError
  | FileNotFoundError
  | IsADirectoryError

text \<open>\<^verbatim>\<open>str.isspace\<close> for one code point: the white space that \<^verbatim>\<open>str.rstrip()\<close> removes.\<close>

definition isspace :: "nat \<Rightarrow> bool" where
  "isspace c \<longleftrightarrow>
     (0x09 \<le> c \<and> c \<le> 0x0D) \<or> (0x1C \<le> c \<and> c \<le> 0x20) \<or> c = 0x85 \<or> c = 0xA0 \<or>
     c = 0x1680 \<or> (0x2000 \<le> c \<and> c \<le> 0x200A) \<or> c = 0x2028 \<or> c = 0x2029 \<or>
     c = 0x202F \<or> c = 0x205F \<or> c = 0x3000"

definition rstrip :: "str \<Rightarrow> str" where
  "rstrip s = rev (dropWhile isspace (rev s))"

text \<open>\<^verbatim>\<open>sep.join(xs)\<close>\<close>

fun join :: "str \<Rightarrow> str list \<Rightarrow> str" where
  "join sep [] = []"
| "join sep [x] = x"
| "join sep (x # y # ys) = x @ sep @ join sep (y # ys)"

text \<open>
  \<^verbatim>\<open>bytes(s, "utf_8")\<close>: the strict UTF-8 encoder. A surrogate code point cannot be
  encoded and raises \<^verbatim>\<open>UnicodeEncodeError\<close>.
\<close>

definition utf8_char :: "nat \<Rightarrow> error + bytes" where
  "utf8_char c =
     (if c < 0x80 then Inr [char_of c]
      else if c < 0x800 then Inr [char_of (0xC0 + c div 0x40), char_of (0x80 + c mod 0x40)]
      else if 0xD800 \<le> c \<and> c \<le> 0xDFFF then Inl UnicodeEncodeError
      else if c < 0x10000 then
        Inr [char_of (0xE0 + c div 0x1000), char_of (0x80 + c div 0x40 mod 0x40),
             char_of (0x80 + c mod 0x40)]
      else if c < 0x110000 then
        Inr [char_of (0xF0 + c div 0x40000), char_of (0x80 + c div 0x1000 mod 0x40),
             char_of (0x80 + c div 0x40 mod 0x40), char_of (0x80 + c mod 0x40)]
      else Inl UnicodeEncodeError)"

fun utf8_encode :: "str \<Rightarrow> error + bytes" where
  "utf8_encode [] = Inr []"
| "utf8_encode (c # cs) =
     (case utf8_char c of
        Inl e \<Rightarrow> Inl e
      | Inr b \<Rightarrow> (case utf8_encode cs of Inl e \<Rightarrow> Inl e | Inr bs \<Rightarrow> Inr (b @ bs)))"

subsection \<open>UTF-8 as the standard defines it\<close>




subsection \<open>The operator, the world around it, and the platform\<close>

type_synonym addr = nat
type_synonym dict = "str \<rightharpoonup> str"

datatype level = INFO | DEBUG
datatype log_arg = AStr str | AInt int
type_synonym log_record = "level \<times> str \<times> log_arg list"

datatype node = Dir | File bytes
type_synonym filesystem = "str \<rightharpoonup> node"

text \<open>The arguments of one \<^verbatim>\<open>Popen\<close> call; \<open>penv\<close> is the entries of the \<^verbatim>\<open>env\<close> dictionary
  at the moment of the call.\<close>

record popen_call =
  args :: "str list"
  cwd :: str
  penv :: dict

text \<open>A \<^verbatim>\<open>Popen\<close> object: \<open>returncode\<close> is \<^verbatim>\<open>None\<close> until \<^verbatim>\<open>wait()\<close> has returned.\<close>

record popen =
  call :: popen_call
  returncode :: "int option"

text \<open>A completed run of the child: the bytes it wrote to the pipe (standard output and
  standard error together), its exit status, and the file system it leaves behind.\<close>

record child =
  stdout :: bytes
  exit_status :: int
  child_fs :: filesystem

record operator =
  bash_command :: str
  env :: "addr option"
  xcom_push_flag :: bool
  output_encoding :: str
  task_id :: str
  lineage_data :: "str option"
  sub_process :: "popen option"

record world =
  os_environ :: dict
  heap :: "addr \<Rightarrow> dict"
  next_addr :: addr
  fs :: filesystem
  log :: "log_record list"
  spawned :: "(popen_call \<times> filesystem) list"

record platform =
  gettempdir :: str
  random_name :: "filesystem \<Rightarrow> str \<Rightarrow> str"
  codec :: "str \<Rightarrow> (bytes \<Rightarrow> str option) option"
  bash :: "popen_call \<Rightarrow> filesystem \<Rightarrow> child"

subsection \<open>Library calls\<close>

definition log_info :: "str \<Rightarrow> log_arg list \<Rightarrow> world \<Rightarrow> world" where
  "log_info msg as w = w\<lparr>log := log w @ [(INFO, msg, as)]\<rparr>"

definition log_debug :: "str \<Rightarrow> log_arg list \<Rightarrow> world \<Rightarrow> world" where
  "log_debug msg as w = w\<lparr>log := log w @ [(DEBUG, msg, as)]\<rparr>"

text \<open>\<^verbatim>\<open>os.environ.copy()\<close>: a new dictionary object with the entries of the environment.\<close>

definition environ_copy :: "world \<Rightarrow> addr \<times> world" where
  "environ_copy w =
     (next_addr w,
      w\<lparr>heap := (heap w)(next_addr w := os_environ w), next_addr := Suc (next_addr w)\<rparr>)"

text \<open>\<^verbatim>\<open>d.update(other)\<close>: every item of \<open>other\<close>, in order, is stored into \<open>d\<close>.\<close>

definition dict_update :: "dict \<Rightarrow> (str \<times> str) list \<Rightarrow> dict" where
  "dict_update d other = fold (\<lambda>(k, v) m. m(k \<mapsto> v)) other d"

definition update_at :: "addr \<Rightarrow> (str \<times> str) list \<Rightarrow> world \<Rightarrow> world" where
  "update_at r other w = w\<lparr>heap := (heap w)(r := dict_update (heap w r) other)\<rparr>"

text \<open>The names \<^verbatim>\<open>tempfile\<close> picks: the directory, the prefix, and random characters
  drawn until the name is unused.\<close>

definition temp_name :: "platform \<Rightarrow> filesystem \<Rightarrow> str \<Rightarrow> str \<Rightarrow> str" where
  "temp_name P f dir pre = (let stem = dir @ u ''/'' @ pre in stem @ random_name P f stem)"

text \<open>\<^verbatim>\<open>mkdtemp(prefix=..)\<close> on entering \<^verbatim>\<open>TemporaryDirectory\<close>, and \<^verbatim>\<open>shutil.rmtree\<close> on
  leaving it: the directory and everything below it go.\<close>

definition mkdtemp :: "platform \<Rightarrow> str \<Rightarrow> world \<Rightarrow> str \<times> world" where
  "mkdtemp P pre w =
     (let name = temp_name P (fs w) (gettempdir P) pre
      in (name, w\<lparr>fs := (fs w)(name \<mapsto> Dir)\<rparr>))"

definition below :: "str \<Rightarrow> str \<Rightarrow> bool" where
  "below d p \<longleftrightarrow> prefix (d @ u ''/'') p"

definition rmtree :: "str \<Rightarrow> world \<Rightarrow> world" where
  "rmtree d w = w\<lparr>fs := (\<lambda>p. if p = d \<or> below d p then None else fs w p)\<rparr>"

text \<open>\<^verbatim>\<open>NamedTemporaryFile(dir=.., prefix=..)\<close>: an empty file on entry. On exit
  \<^verbatim>\<open>tempfile\<close> (of Python up to 3.11, which the operator was written for) closes the
  file and calls \<^verbatim>\<open>os.unlink\<close> on its name with no guard: the call raises \<^verbatim>\<open>FileNotFoundError\<close> when the name is gone and \<^verbatim>\<open>IsADirectoryError\<close>
  when it names a directory.\<close>

definition NamedTemporaryFile :: "platform \<Rightarrow> str \<Rightarrow> str \<Rightarrow> world \<Rightarrow> str \<times> world" where
  "NamedTemporaryFile P d pre w =
     (let name = temp_name P (fs w) d pre
      in (name, w\<lparr>fs := (fs w)(name \<mapsto> File [])\<rparr>))"

definition unlink :: "str \<Rightarrow> world \<Rightarrow> error option \<times> world" where
  "unlink name w =
     (case fs w name of
        None \<Rightarrow> (Some FileNotFoundError, w)
      | Some Dir \<Rightarrow> (Some IsADirectoryError, w)
      | Some (File data) \<Rightarrow> (None, w\<lparr>fs := (fs w)(name := None)\<rparr>))"

text \<open>\<^verbatim>\<open>f.write(data); f.flush()\<close> on the file just created.\<close>

definition write_flush :: "str \<Rightarrow> bytes \<Rightarrow> world \<Rightarrow> world" where
  "write_flush name data w = w\<lparr>fs := (fs w)(name \<mapsto> File data)\<rparr>"

text \<open>\<^verbatim>\<open>Popen(["bash", fname], stdout=PIPE, stderr=STDOUT, cwd=tmp_dir, env=env, ..)\<close>:
  the call is recorded with the file system the child starts in, and the child runs.\<close>

definition Popen :: "platform \<Rightarrow> str list \<Rightarrow> str \<Rightarrow> addr \<Rightarrow> world \<Rightarrow> popen \<times> child \<times> world" where
  "Popen P as d r w =
     (let c = \<lparr>args = as, cwd = d, penv = heap w r\<rparr>;
          ch = bash P c (fs w)
      in (\<lparr>call = c, returncode = None\<rparr>, ch,
          w\<lparr>spawned := spawned w @ [(c, fs w)], fs := child_fs ch\<rparr>))"

text \<open>\<^verbatim>\<open>raw.decode(encoding)\<close>: \<^verbatim>\<open>LookupError\<close> for an unknown encoding,
  \<^verbatim>\<open>UnicodeDecodeError\<close> for bytes the codec rejects.\<close>

definition decode :: "platform \<Rightarrow> str \<Rightarrow> bytes \<Rightarrow> error + str" where
  "decode P encoding raw =
     (case codec P encoding of
        None \<Rightarrow> Inl LookupError
      | Some dec \<Rightarrow> (case dec raw of None \<Rightarrow> Inl UnicodeDecodeError | Some s \<Rightarrow> Inr s))"

text \<open>\<^verbatim>\<open>stdout.readline()\<close> on the rest of the pipe: the bytes up to and including the next
  line feed, or all that is left; empty at the end of the stream.\<close>

fun readline :: "bytes \<Rightarrow> bytes \<times> bytes" where
  "readline [] = ([], [])"
| "readline (c # cs) =
     (if c = CHR 0x0A then ([c], cs)
      else (case readline cs of (l, rest) \<Rightarrow> (c # l, rest)))"

text \<open>\<^verbatim>\<open>iter(stdout.readline, b"")\<close>: the values \<^verbatim>\<open>readline\<close> returns, up to the first
  empty one.\<close>

function iter_readline :: "bytes \<Rightarrow> bytes list" where
  "iter_readline pipe =
     (case readline pipe of
        (raw, rest) \<Rightarrow> if raw = [] then [] else raw # iter_readline rest)"
  by pat_completeness auto
termination
proof (relation "measure length")
  show "wf (measure (length :: bytes \<Rightarrow> nat))"
    by simp
next
  fix pipe raw rest :: bytes
  assume "(raw, rest) = readline pipe" "raw \<noteq> []"
  have total: "length (fst (readline s)) + length (snd (readline s)) = length s" for s
    by (induction s) (auto split: prod.splits)
  from \<open>(raw, rest) = readline pipe\<close> \<open>raw \<noteq> []\<close>
  have "length raw + length rest = length pipe" "0 < length raw"
    using total [of pipe] by (simp_all add: prod_eq_iff)
  then have "length rest < length pipe"
    by linarith
  then show "(rest, pipe) \<in> measure length"
    by simp
qed

declare iter_readline.simps [simp del]

subsection \<open>The method\<close>

text \<open>Lines 140 to 144: the body of the \<^verbatim>\<open>for\<close> loop, run over the lines read. A line
  that does not decode ends the loop with the decoder's exception; whatever was logged
  and buffered before stays.\<close>

fun output_loop ::
  "platform \<Rightarrow> operator \<Rightarrow> bytes list \<Rightarrow> str list \<Rightarrow> world \<Rightarrow> error option \<times> str list \<times> world"
where
  "output_loop P self [] output_buffer w = (None, output_buffer, w)"
| "output_loop P self (raw # rest) output_buffer w =
     (case decode P (output_encoding self) raw of
        Inl e \<Rightarrow> (Some e, output_buffer, w)
      | Inr decoded \<Rightarrow>
          let line = rstrip decoded;
              output_buffer' = (if xcom_push_flag self then output_buffer @ [line]
                                else output_buffer)
          in output_loop P self rest output_buffer' (log_info line [] w))"

text \<open>Lines 115 to 151: the body of \<^verbatim>\<open>with NamedTemporaryFile(..) as f\<close>.\<close>

definition run_script ::
  "platform \<Rightarrow> str \<Rightarrow> str \<Rightarrow> addr \<Rightarrow> operator \<Rightarrow> world \<Rightarrow> (error + str list) \<times> operator \<times> world"
where
  "run_script P tmp_dir fname env_ref self w =
     (case utf8_encode (bash_command self) of
        Inl e \<Rightarrow> (Inl e, self, w)
      | Inr data \<Rightarrow>
          let w1 = write_flush fname data w;
              script_location = fname;
              w2 = log_info (u ''Temporary script location: %s'') [AStr script_location] w1;
              w3 = log_info (u ''Running command: %s'') [AStr (bash_command self)] w2;
              (p, ch, w4) = Popen P [u ''bash'', fname] tmp_dir env_ref w3;
              self1 = self\<lparr>sub_process := Some p\<rparr>;
              w5 = log_info (u ''Output:'') [] w4;
              (raised, output_buffer, w6) =
                 output_loop P self1 (iter_readline (stdout ch)) [] w5
          in (case raised of
                Some e \<Rightarrow> (Inl e, self1, w6)
              | None \<Rightarrow>
                  let self2 = self1\<lparr>sub_process := Some (p\<lparr>returncode := Some (exit_status ch)\<rparr>)\<rparr>;
                      w7 = log_info (u ''Command exited with return code %s'')
                             [AInt (exit_status ch)] w6
                  in if exit_status ch \<noteq> 0
                     then (Inl (AirflowException (u ''Bash command failed'')), self2, w7)
                     else (Inr output_buffer, self2, w7)))"

text \<open>Lines 113 to 151: \<^verbatim>\<open>with NamedTemporaryFile(dir=tmp_dir, prefix=self.task_id) as f\<close>.
  The file is unlinked however the body ends; an exception of the unlinking takes the
  place of what the body returned or raised.\<close>

definition with_script_file ::
  "platform \<Rightarrow> str \<Rightarrow> addr \<Rightarrow> operator \<Rightarrow> world \<Rightarrow> (error + str list) \<times> operator \<times> world"
where
  "with_script_file P tmp_dir env_ref self w =
     (let (fname, w1) = NamedTemporaryFile P tmp_dir (task_id self) w;
          (r, self', w2) = run_script P tmp_dir fname env_ref self w1;
          (failed, w3) = unlink fname w2
      in ((case failed of Some e \<Rightarrow> Inl e | None \<Rightarrow> r), self', w3))"

text \<open>Lines 94 to 154. \<open>airflow_context_vars\<close> is the value of
  \<^verbatim>\<open>context_to_airflow_vars(context, in_env_var_format=True)\<close>. The result is the
  exception raised or the value returned (\<^verbatim>\<open>None\<close> when nothing is returned), with
  the operator and the world as the call leaves them.\<close>

definition execute ::
  "platform \<Rightarrow> (str \<times> str) list \<Rightarrow> operator \<Rightarrow> world
     \<Rightarrow> (error + str list option) \<times> operator \<times> world"
where
  "execute P airflow_context_vars self w =
     (let w1 = log_info (u ''Tmp dir root location: \<newline> %s'') [AStr (gettempdir P)] w;
          (env_ref, w2) = (case env self of None \<Rightarrow> environ_copy w1 | Some r \<Rightarrow> (r, w1));
          w3 = log_debug (u ''Exporting the following env vars:\<newline>%s'')
                 [AStr (join (u ''\<newline>'') (map (\<lambda>(k, v). k @ u ''='' @ v) airflow_context_vars))] w2;
          w4 = update_at env_ref airflow_context_vars w3;
          self1 = self\<lparr>lineage_data := Some (bash_command self)\<rparr>;
          (tmp_dir, w5) = mkdtemp P (u ''airflowtmp'') w4;
          (r, self2, w6) = with_script_file P tmp_dir env_ref self1 w5;
          w7 = rmtree tmp_dir w6
      in ((case r of
             Inl e \<Rightarrow> Inl e
           | Inr output_buffer \<Rightarrow> Inr (if xcom_push_flag self2 then Some output_buffer else None)),
          self2, w7))"

subsection \<open>Names used in the statements\<close>

text \<open>What a call returns or raises, and the world it leaves.\<close>

abbreviation returned :: "platform \<Rightarrow> (str \<times> str) list \<Rightarrow> operator \<Rightarrow> world \<Rightarrow> error + str list option" where
  "returned P vars self w \<equiv> fst (execute P vars self w)"

abbreviation after :: "platform \<Rightarrow> (str \<times> str) list \<Rightarrow> operator \<Rightarrow> world \<Rightarrow> world" where
  "after P vars self w \<equiv> snd (snd (execute P vars self w))"

text \<open>A line read from the pipe decodes under the operator's encoding; the text the loop
  makes of it.\<close>

abbreviation decodes :: "platform \<Rightarrow> operator \<Rightarrow> bytes \<Rightarrow> bool" where
  "decodes P self raw \<equiv> \<not> isl (decode P (output_encoding self) raw)"

abbreviation line_of :: "platform \<Rightarrow> operator \<Rightarrow> bytes \<Rightarrow> str" where
  "line_of P self raw \<equiv> rstrip (projr (decode P (output_encoding self) raw))"

text \<open>The temporary directory and the script file of a call that starts in world \<open>w\<close>, the
  dictionary the operator starts from, and the arguments and the file system of the
  \<^verbatim>\<open>Popen\<close> call.\<close>

abbreviation tmp_dir :: "platform \<Rightarrow> world \<Rightarrow> str" where
  "tmp_dir P w \<equiv> temp_name P (fs w) (gettempdir P) (u ''airflowtmp'')"

abbreviation script :: "platform \<Rightarrow> operator \<Rightarrow> world \<Rightarrow> str" where
  "script P self w \<equiv> temp_name P ((fs w)(tmp_dir P w \<mapsto> Dir)) (tmp_dir P w) (task_id self)"

abbreviation supplied :: "operator \<Rightarrow> world \<Rightarrow> dict" where
  "supplied self w \<equiv> (case env self of None \<Rightarrow> os_environ w | Some a \<Rightarrow> heap w a)"

abbreviation the_call :: "platform \<Rightarrow> (str \<times> str) list \<Rightarrow> operator \<Rightarrow> world \<Rightarrow> popen_call" where
  "the_call P vars self w \<equiv>
     \<lparr>args = [u ''bash'', script P self w], cwd = tmp_dir P w,
      penv = dict_update (supplied self w) vars\<rparr>"

abbreviation start_fs :: "platform \<Rightarrow> operator \<Rightarrow> world \<Rightarrow> bytes \<Rightarrow> filesystem" where
  "start_fs P self w data \<equiv> (fs w)(tmp_dir P w \<mapsto> Dir, script P self w \<mapsto> File data)"

subsection \<open>A concrete platform\<close>

text \<open>Two codecs of the standard library: \<^verbatim>\<open>ascii\<close> rejects every byte above 127,
  \<^verbatim>\<open>latin-1\<close> maps each byte to the code point of the same number.\<close>

definition ascii :: "bytes \<Rightarrow> str option" where
  "ascii raw = (if \<forall>b \<in> set raw. (of_char b :: nat) < 0x80 then Some (map of_char raw) else None)"

definition latin_1 :: "bytes \<Rightarrow> str option" where
  "latin_1 raw = Some (map of_char raw)"

definition codecs :: "str \<Rightarrow> (bytes \<Rightarrow> str option) option" where
  "codecs encoding =
     (if encoding = u ''ascii'' then Some ascii
      else if encoding = u ''latin-1'' then Some latin_1
      else None)"

text \<open>A platform whose temporary directories are under \<^verbatim>\<open>/tmp\<close> and whose child writes
  \<open>out\<close> to the pipe, leaves the file \<^verbatim>\<open>note\<close> in its working directory and exits with
  status \<open>rc\<close>.\<close>

definition example_platform :: "bytes \<Rightarrow> int \<Rightarrow> platform" where
  "example_platform out rc =
     \<lparr>gettempdir = u ''/tmp'',
      random_name = (\<lambda>f stem. u ''k3_x9'' ),
      codec = codecs,
      bash = (\<lambda>c f. \<lparr>stdout = out, exit_status = rc,
                       child_fs = f(cwd c @ u ''/note'' \<mapsto> File [])\<rparr>)\<rparr>"

text \<open>An operator whose \<^verbatim>\<open>env\<close> is the dictionary at address \<open>0\<close>, a world in which that
  dictionary already has an entry under the name of a context variable, and the context
  variables of a run.\<close>

definition example_operator :: "bool \<Rightarrow> operator" where
  "example_operator flag =
     \<lparr>bash_command = u ''run'', env = Some 0, xcom_push_flag = flag,
      output_encoding = u ''ascii'', task_id = u ''t1'', lineage_data = None,
      sub_process = None\<rparr>"

definition example_world :: world where
  "example_world =
     \<lparr>os_environ = [u ''HOME'' \<mapsto> u ''/root''],
      heap = (\<lambda>a. Map.empty)(0 := [u ''message'' \<mapsto> u ''hi'', u ''AIRFLOW_CTX_DAG_ID'' \<mapsto> u ''stale'']),
      next_addr = 1, fs = [u ''/tmp'' \<mapsto> Dir], log = [], spawned = []\<rparr>"

definition example_vars :: "(str \<times> str) list" where
  "example_vars = [(u ''AIRFLOW_CTX_DAG_ID'', u ''etl'')]"

text \<open>A platform whose child removes the script it was started on (as a command ending in
  \<^verbatim>\<open>rm "$0"\<close> does) after writing \<open>out\<close>, and exits with status \<open>rc\<close>.\<close>

definition removing_platform :: "bytes \<Rightarrow> int \<Rightarrow> platform" where
  "removing_platform out rc =
     \<lparr>gettempdir = u ''/tmp'',
      random_name = (\<lambda>f stem. u ''k3_x9'' ),
      codec = codecs,
      bash = (\<lambda>c f. \<lparr>stdout = out, exit_status = rc,
                       child_fs = f(args c ! 1 := None)\<rparr>)\<rparr>"



section \<open>Properties\<close>

subsection \<open>The encoder writes UTF-8\<close>












subsection \<open>Reading and decoding the output\<close>




lemma output_loop_eq:
  "output_loop P self raws buf w =
     ((case dropWhile (decodes P self) raws of
         [] \<Rightarrow> None
       | raw # _ \<Rightarrow> Some (projl (decode P (output_encoding self) raw))),
      (if xcom_push_flag self then buf @ map (line_of P self) (takeWhile (decodes P self) raws)
       else buf),
      w\<lparr>log := log w @ map (\<lambda>l. (INFO, l, [])) (map (line_of P self) (takeWhile (decodes P self) raws))\<rparr>)"
proof (induction raws arbitrary: buf w)
  case Nil
  then show ?case by simp
next
  case (Cons raw raws)
  show ?case
  proof (cases "decode P (output_encoding self) raw")
    case (Inl e)
    then show ?thesis by simp
  next
    case (Inr s)
    then show ?thesis
      by (simp add: Cons.IH log_info_def Let_def)
  qed
qed

subsection \<open>The script file and the temporary directory\<close>

lemma run_script_Inl:
  "utf8_encode (bash_command self) = Inl e \<Longrightarrow> run_script P d fn a self w = (Inl e, self, w)"
  by (simp add: run_script_def)

lemma output_loop_sub_process:
  "output_loop P (self\<lparr>sub_process := p\<rparr>) raws buf w = output_loop P self raws buf w"
  by (induction raws arbitrary: buf w) (simp_all split: sum.splits)

lemma run_script_unfold:
  "utf8_encode (bash_command self) = Inr data \<Longrightarrow>
   run_script P d fn a self w =
     (let c = \<lparr>args = [u ''bash'', fn], cwd = d, penv = heap w a\<rparr>;
          f = (fs w)(fn \<mapsto> File data);
          ch = bash P c f;
          w5 = w\<lparr>spawned := spawned w @ [(c, f)], fs := child_fs ch,
                 log := log w @
                   [(INFO, u ''Temporary script location: %s'', [AStr fn]),
                    (INFO, u ''Running command: %s'', [AStr (bash_command self)]),
                    (INFO, u ''Output:'', [])]\<rparr>
      in case output_loop P self (iter_readline (stdout ch)) [] w5 of
           (raised, output_buffer, w6) \<Rightarrow>
             (case raised of
                Some e \<Rightarrow> (Inl e, self\<lparr>sub_process := Some \<lparr>call = c, returncode = None\<rparr>\<rparr>, w6)
              | None \<Rightarrow>
                 (if exit_status ch \<noteq> 0 then Inl (AirflowException (u ''Bash command failed''))
                  else Inr output_buffer,
                  self\<lparr>sub_process := Some \<lparr>call = c, returncode = Some (exit_status ch)\<rparr>\<rparr>,
                  w6\<lparr>log := log w6 @
                    [(INFO, u ''Command exited with return code %s'', [AInt (exit_status ch)])]\<rparr>)))"
  by (simp add: run_script_def write_flush_def Popen_def log_info_def output_loop_sub_process
      Let_def split: prod.splits option.splits)

lemma run_script_Inr:
  "utf8_encode (bash_command self) = Inr data \<Longrightarrow>
   run_script P d fn a self w =
     (let c = \<lparr>args = [u ''bash'', fn], cwd = d, penv = heap w a\<rparr>;
          f = (fs w)(fn \<mapsto> File data);
          ch = bash P c f;
          raws = iter_readline (stdout ch);
          done = (dropWhile (decodes P self) raws = [])
      in ((case dropWhile (decodes P self) raws of
             raw # _ \<Rightarrow> Inl (projl (decode P (output_encoding self) raw))
           | [] \<Rightarrow>
               if exit_status ch \<noteq> 0 then Inl (AirflowException (u ''Bash command failed''))
               else Inr (if xcom_push_flag self then map (line_of P self) raws else [])),
          self\<lparr>sub_process :=
            Some \<lparr>call = c, returncode = (if done then Some (exit_status ch) else None)\<rparr>\<rparr>,
          w\<lparr>spawned := spawned w @ [(c, f)], fs := child_fs ch,
            log := log w @
              [(INFO, u ''Temporary script location: %s'', [AStr fn]),
               (INFO, u ''Running command: %s'', [AStr (bash_command self)]),
               (INFO, u ''Output:'', [])] @
              map (\<lambda>l. (INFO, l, [])) (map (line_of P self) (takeWhile (decodes P self) raws)) @
              (if done
               then [(INFO, u ''Command exited with return code %s'', [AInt (exit_status ch)])]
               else [])\<rparr>))"
proof -
  assume enc: "utf8_encode (bash_command self) = Inr data"
  define raws where
    "raws = iter_readline (stdout (bash P \<lparr>args = [u ''bash'', fn], cwd = d, penv = heap w a\<rparr>
       ((fs w)(fn \<mapsto> File data))))"
  show ?thesis
  proof (cases "dropWhile (decodes P self) raws")
    case Nil
    then have "takeWhile (decodes P self) raws = raws"
      by simp
    with Nil show ?thesis
      unfolding run_script_unfold [OF enc] output_loop_eq Let_def raws_def
      by (simp del: dropWhile_eq_Nil_conv takeWhile_eq_all_conv)
  next
    case (Cons raw rest)
    then show ?thesis
      unfolding run_script_unfold [OF enc] output_loop_eq Let_def raws_def
      by (simp del: dropWhile_eq_Nil_conv takeWhile_eq_all_conv)
  qed
qed

lemma with_script_file_Inl:
  "utf8_encode (bash_command self) = Inl e \<Longrightarrow>
   with_script_file P d a self w =
     (Inl e, self, w\<lparr>fs := (fs w)(temp_name P (fs w) d (task_id self) := None)\<rparr>)"
  by (simp add: with_script_file_def NamedTemporaryFile_def unlink_def run_script_Inl Let_def)

lemma with_script_file_Inr:
  "utf8_encode (bash_command self) = Inr data \<Longrightarrow>
   with_script_file P d a self w =
     (let fn = temp_name P (fs w) d (task_id self);
          c = \<lparr>args = [u ''bash'', fn], cwd = d, penv = heap w a\<rparr>;
          f = (fs w)(fn \<mapsto> File data);
          ch = bash P c f;
          raws = iter_readline (stdout ch);
          done = (dropWhile (decodes P self) raws = [])
      in ((case child_fs ch fn of
             None \<Rightarrow> Inl FileNotFoundError
           | Some Dir \<Rightarrow> Inl IsADirectoryError
           | Some (File left) \<Rightarrow>
              (case dropWhile (decodes P self) raws of
                 raw # _ \<Rightarrow> Inl (projl (decode P (output_encoding self) raw))
               | [] \<Rightarrow>
                   if exit_status ch \<noteq> 0 then Inl (AirflowException (u ''Bash command failed''))
                   else Inr (if xcom_push_flag self then map (line_of P self) raws else []))),
          self\<lparr>sub_process :=
            Some \<lparr>call = c, returncode = (if done then Some (exit_status ch) else None)\<rparr>\<rparr>,
          w\<lparr>spawned := spawned w @ [(c, f)],
            fs := (case child_fs ch fn of
                     Some (File left) \<Rightarrow> (child_fs ch)(fn := None)
                   | _ \<Rightarrow> child_fs ch),
            log := log w @
              [(INFO, u ''Temporary script location: %s'', [AStr fn]),
               (INFO, u ''Running command: %s'', [AStr (bash_command self)]),
               (INFO, u ''Output:'', [])] @
              map (\<lambda>l. (INFO, l, [])) (map (line_of P self) (takeWhile (decodes P self) raws)) @
              (if done
               then [(INFO, u ''Command exited with return code %s'', [AInt (exit_status ch)])]
               else [])\<rparr>))"
proof -
  assume enc: "utf8_encode (bash_command self) = Inr data"
  let ?fn = "temp_name P (fs w) d (task_id self)"
  let ?ch = "bash P \<lparr>args = [u ''bash'', ?fn], cwd = d, penv = heap w a\<rparr> ((fs w)(?fn \<mapsto> File data))"
  show ?thesis
  proof (cases "child_fs ?ch ?fn")
    case None
    then show ?thesis
      by (simp add: with_script_file_def NamedTemporaryFile_def unlink_def run_script_Inr [OF enc]
          Let_def del: dropWhile_eq_Nil_conv takeWhile_eq_all_conv cong: list.case_cong)
  next
    case (Some nd)
    then show ?thesis
      by (cases nd)
         (simp_all add: with_script_file_def NamedTemporaryFile_def unlink_def
            run_script_Inr [OF enc] Let_def
            del: dropWhile_eq_Nil_conv takeWhile_eq_all_conv cong: list.case_cong)
  qed
qed

lemmas execute_unfold =
  execute_def mkdtemp_def rmtree_def update_at_def environ_copy_def log_info_def log_debug_def
  Let_def case_prod_beta

lemma execute_Inl:
  "utf8_encode (bash_command self) = Inl e \<Longrightarrow>
   returned P vars self w = Inl e \<and> spawned (after P vars self w) = spawned w"
proof -
  assume enc: "utf8_encode (bash_command self) = Inl e"
  have enc': "utf8_encode (bash_command (self\<lparr>lineage_data := Some (bash_command self)\<rparr>)) = Inl e"
    using enc by simp
  show ?thesis
    by (cases "env self") (simp_all add: execute_unfold with_script_file_Inl [OF enc'])
qed

lemma execute_spawned:
  "utf8_encode (bash_command self) = Inr data \<Longrightarrow>
   spawned (after P vars self w) = spawned w @ [(the_call P vars self w, start_fs P self w data)]"
proof -
  assume enc: "utf8_encode (bash_command self) = Inr data"
  have enc': "utf8_encode (bash_command (self\<lparr>lineage_data := Some (bash_command self)\<rparr>)) = Inr data"
    using enc by simp
  show ?thesis
    by (cases "env self")
       (simp_all add: execute_unfold with_script_file_Inr [OF enc']
          del: dropWhile_eq_Nil_conv takeWhile_eq_all_conv)
qed

lemma execute_returned:
  "utf8_encode (bash_command self) = Inr data \<Longrightarrow>
   returned P vars self w =
     (let ch = bash P (the_call P vars self w) (start_fs P self w data);
          raws = iter_readline (stdout ch)
      in case child_fs ch (script P self w) of
           None \<Rightarrow> Inl FileNotFoundError
         | Some Dir \<Rightarrow> Inl IsADirectoryError
         | Some (File left) \<Rightarrow>
            (case dropWhile (decodes P self) raws of
               raw # _ \<Rightarrow> Inl (projl (decode P (output_encoding self) raw))
             | [] \<Rightarrow>
                 if exit_status ch \<noteq> 0 then Inl (AirflowException (u ''Bash command failed''))
                 else Inr (if xcom_push_flag self then Some (map (line_of P self) raws) else None)))"
proof -
  assume enc: "utf8_encode (bash_command self) = Inr data"
  have enc': "utf8_encode (bash_command (self\<lparr>lineage_data := Some (bash_command self)\<rparr>)) = Inr data"
    using enc by simp
  let ?ch = "bash P (the_call P vars self w) (start_fs P self w data)"
  let ?raws = "iter_readline (stdout ?ch)"
  let ?r = "case child_fs ?ch (script P self w) of
              None \<Rightarrow> Inl FileNotFoundError
            | Some Dir \<Rightarrow> Inl IsADirectoryError
            | Some (File left) \<Rightarrow>
               (case dropWhile (decodes P self) ?raws of
                  raw # _ \<Rightarrow> Inl (projl (decode P (output_encoding self) raw))
                | [] \<Rightarrow>
                    if exit_status ?ch \<noteq> 0 then Inl (AirflowException (u ''Bash command failed''))
                    else Inr (if xcom_push_flag self then map (line_of P self) ?raws else []))"
  have r: "returned P vars self w =
      (case ?r of Inl e \<Rightarrow> Inl e
       | Inr b \<Rightarrow> Inr (if xcom_push_flag self then Some b else None))"
    by (cases "env self")
       (simp_all add: execute_unfold with_script_file_Inr [OF enc']
          del: dropWhile_eq_Nil_conv takeWhile_eq_all_conv
          cong: list.case_cong sum.case_cong option.case_cong node.case_cong)
  show ?thesis
  proof (cases "child_fs ?ch (script P self w)")
    case None
    with r show ?thesis
      by (simp add: Let_def del: dropWhile_eq_Nil_conv takeWhile_eq_all_conv)
  next
    case (Some nd)
    show ?thesis
    proof (cases nd)
      case Dir
      with r Some show ?thesis
        by (simp add: Let_def del: dropWhile_eq_Nil_conv takeWhile_eq_all_conv)
    next
      case (File left)
      with r Some show ?thesis
        by (cases "dropWhile (decodes P self) ?raws")
           (simp_all add: Let_def del: dropWhile_eq_Nil_conv takeWhile_eq_all_conv)
    qed
  qed
qed

lemma execute_log:
  "utf8_encode (bash_command self) = Inr data \<Longrightarrow>
   log (after P vars self w) =
     (let ch = bash P (the_call P vars self w) (start_fs P self w data);
          raws = iter_readline (stdout ch)
      in log w @
         [(INFO, u ''Tmp dir root location: \<newline> %s'', [AStr (gettempdir P)]),
          (DEBUG, u ''Exporting the following env vars:\<newline>%s'',
             [AStr (join (u ''\<newline>'') (map (\<lambda>(k, v). k @ u ''='' @ v) vars))]),
          (INFO, u ''Temporary script location: %s'', [AStr (script P self w)]),
          (INFO, u ''Running command: %s'', [AStr (bash_command self)]),
          (INFO, u ''Output:'', [])] @
         map (\<lambda>l. (INFO, l, [])) (map (line_of P self) (takeWhile (decodes P self) raws)) @
         (if dropWhile (decodes P self) raws = []
          then [(INFO, u ''Command exited with return code %s'', [AInt (exit_status ch)])]
          else []))"
proof -
  assume enc: "utf8_encode (bash_command self) = Inr data"
  have enc': "utf8_encode (bash_command (self\<lparr>lineage_data := Some (bash_command self)\<rparr>)) = Inr data"
    using enc by simp
  show ?thesis
    by (cases "env self")
       (simp_all add: execute_unfold with_script_file_Inr [OF enc']
          del: dropWhile_eq_Nil_conv takeWhile_eq_all_conv)
qed


text \<open>The outcome of a call that started the child, by what the child left of its script:
  with the file still there the outcome is that of the loop and of the exit status;
  without it the call raises the error of \<^verbatim>\<open>os.unlink\<close>.\<close>

lemma execute_returned_kept:
  assumes "utf8_encode (bash_command self) = Inr data"
    and "child_fs (bash P (the_call P vars self w) (start_fs P self w data)) (script P self w)
           = Some (File left)"
  shows "returned P vars self w =
     (let ch = bash P (the_call P vars self w) (start_fs P self w data);
          raws = iter_readline (stdout ch)
      in case dropWhile (decodes P self) raws of
           raw # _ \<Rightarrow> Inl (projl (decode P (output_encoding self) raw))
         | [] \<Rightarrow>
             if exit_status ch \<noteq> 0 then Inl (AirflowException (u ''Bash command failed''))
             else Inr (if xcom_push_flag self then Some (map (line_of P self) raws) else None))"
  unfolding execute_returned [OF assms(1)] Let_def assms(2)
  by (simp del: dropWhile_eq_Nil_conv takeWhile_eq_all_conv cong: list.case_cong)

lemma execute_returned_gone:
  assumes "utf8_encode (bash_command self) = Inr data"
    and "\<forall>left. child_fs (bash P (the_call P vars self w) (start_fs P self w data))
           (script P self w) \<noteq> Some (File left)"
  shows "returned P vars self w = Inl FileNotFoundError \<or>
         returned P vars self w = Inl IsADirectoryError"
proof (cases "child_fs (bash P (the_call P vars self w) (start_fs P self w data)) (script P self w)")
  case None
  then show ?thesis
    unfolding execute_returned [OF assms(1)] Let_def by simp
next
  case (Some nd)
  with assms(2) have "nd = Dir"
    by (cases nd) simp_all
  with Some show ?thesis
    unfolding execute_returned [OF assms(1)] Let_def by simp
qed

subsection \<open>The concrete platform\<close>

lemma utf8_encode_ascii: "\<forall>c \<in> set s. (of_char c :: nat) < 0x80 \<Longrightarrow> utf8_encode (u s) = Inr s"
  by (induction s) (simp_all add: u_def utf8_char_def)

lemma example_encodes: "utf8_encode (bash_command (example_operator flag)) = Inr ''run''"
  by (simp add: example_operator_def utf8_encode_ascii)


lemma example_iter_readline:
  "iter_readline ''one  \<newline>two\<newline>'' = [''one  \<newline>'', ''two\<newline>'']"
  by (simp add: iter_readline.simps)

lemma example_stdout:
  "stdout (bash (example_platform out rc) c f) = out"
  "exit_status (bash (example_platform out rc) c f) = rc"
  by (simp_all add: example_platform_def)

lemma example_fields:
  "output_encoding (example_operator flag) = u ''ascii''"
  "xcom_push_flag (example_operator flag) = flag"
  "env (example_operator flag) = Some 0"
  by (simp_all add: example_operator_def)

lemma example_decode:
  "\<forall>b \<in> set raw. (of_char b :: nat) < 0x80 \<Longrightarrow>
   decode (example_platform out rc) (u ''ascii'') raw = Inr (map of_char raw)"
  by (simp add: decode_def example_platform_def codecs_def ascii_def)



lemma example_script_kept:
  "child_fs (bash (example_platform out rc)
       (the_call (example_platform out rc) vars (example_operator flag) example_world)
       (start_fs (example_platform out rc) (example_operator flag) example_world data))
     (script (example_platform out rc) (example_operator flag) example_world) = Some (File data)"
  by (simp add: temp_name_def example_platform_def example_operator_def Let_def u_def)

lemma removing_script_gone:
  "child_fs (bash (removing_platform out rc) (the_call (removing_platform out rc) vars self w)
       (start_fs (removing_platform out rc) self w data))
     (script (removing_platform out rc) self w) = None"
  by (simp add: removing_platform_def)

lemma example_returned:
  "returned (example_platform ''one  \<newline>two\<newline>'' 0) example_vars (example_operator True)
     example_world = Inr (Some [u ''one'', u ''two''])"
  unfolding execute_returned_kept [OF example_encodes example_script_kept] Let_def example_stdout
    example_iter_readline example_fields
  apply (simp add: example_decode)
  apply (simp add: rstrip_def isspace_def u_def)
  done

text \<open>A child that removes its script makes the call raise \<^verbatim>\<open>FileNotFoundError\<close> when the
  \<^verbatim>\<open>with NamedTemporaryFile\<close> block is left, whatever it wrote and whatever its exit
  status.\<close>

lemma execute_script_removed:
  "returned (removing_platform out rc) vars (example_operator flag) w = Inl FileNotFoundError"
  unfolding execute_returned [OF example_encodes] Let_def removing_script_gone by simp

subsection \<open>The environment of the child, and how a call ends\<close>

lemma spawnedE:
  assumes "spawned (after P vars self w) = spawned w @ [(c, f)]"
  obtains data where "utf8_encode (bash_command self) = Inr data"
    and "c = the_call P vars self w" and "f = start_fs P self w data"
proof (cases "utf8_encode (bash_command self)")
  case (Inl e)
  with assms execute_Inl [OF Inl, of P vars w] show ?thesis
    by simp
next
  case (Inr data)
  with assms execute_spawned [OF Inr, of P vars w] that show ?thesis
    by simp
qed









text \<open>
  Claim C7. When the child exits with a non-zero status, the call ends in an exception:
  no list of captured lines is returned.
\<close>

theorem no_result_on_nonzero_exit:
  assumes "spawned (after P vars self w) = spawned w @ [(c, f)]"
    and "exit_status (bash P c f) \<noteq> 0"
  shows "\<exists>e. returned P vars self w = Inl e"
proof -
  from assms(1) obtain data where enc: "utf8_encode (bash_command self) = Inr data"
    and c: "c = the_call P vars self w" and f: "f = start_fs P self w data"
    by (rule spawnedE)
  show ?thesis
  proof (cases "\<exists>left. child_fs (bash P c f) (script P self w) = Some (File left)")
    case True
    then obtain left where kept: "child_fs (bash P (the_call P vars self w)
        (start_fs P self w data)) (script P self w) = Some (File left)"
      unfolding c f by blast
    show ?thesis
    proof (cases "dropWhile (decodes P self) (iter_readline (stdout (bash P c f)))")
      case Nil
      with assms(2) show ?thesis
        unfolding execute_returned_kept [OF enc kept] c f Let_def
        by (simp del: dropWhile_eq_Nil_conv)
    next
      case (Cons raw rest)
      then show ?thesis
        unfolding execute_returned_kept [OF enc kept] c f Let_def
        by (simp del: dropWhile_eq_Nil_conv)
    qed
  next
    case False
    then have "\<forall>left. child_fs (bash P (the_call P vars self w) (start_fs P self w data))
        (script P self w) \<noteq> Some (File left)"
      unfolding c f by blast
    from execute_returned_gone [OF enc this] show ?thesis
      by blast
  qed
qed

theorem no_result_on_nonzero_exit_witness:
  "\<exists>e. returned (example_platform ''one  \<newline>two\<newline>'' 3) example_vars (example_operator True)
     example_world = Inl e"
  by (rule no_result_on_nonzero_exit [OF execute_spawned [OF example_encodes]])
     (simp add: example_platform_def)




text \<open>
  Claim C8. A call that returns normally has started the child, which exited with status
  zero; it returns the lines read from the pipe, decoded and stripped, in order, when
  capture is requested, and \<^verbatim>\<open>None\<close> when it is not.
\<close>

theorem execute_returns_buffer_iff_capture:
  assumes "returned P vars self w = Inr v"
  shows "\<exists>c f. spawned (after P vars self w) = spawned w @ [(c, f)] \<and>
           exit_status (bash P c f) = 0 \<and>
           v = (if xcom_push_flag self
                then Some (map (line_of P self) (iter_readline (stdout (bash P c f))))
                else None)"
proof (cases "utf8_encode (bash_command self)")
  case (Inl e)
  with assms execute_Inl [OF Inl, of P vars w] show ?thesis
    by simp
next
  case (Inr data)
  let ?c = "the_call P vars self w" and ?f = "start_fs P self w data"
  have sp: "spawned (after P vars self w) = spawned w @ [(?c, ?f)]"
    by (rule execute_spawned [OF Inr])
  have "\<exists>left. child_fs (bash P ?c ?f) (script P self w) = Some (File left)"
  proof (rule ccontr)
    assume "\<not> ?thesis"
    then have "\<forall>left. child_fs (bash P ?c ?f) (script P self w) \<noteq> Some (File left)"
      by blast
    from execute_returned_gone [OF Inr this] assms show False
      by simp
  qed
  then obtain left where kept: "child_fs (bash P ?c ?f) (script P self w) = Some (File left)"
    by blast
  show ?thesis
  proof (cases "dropWhile (decodes P self) (iter_readline (stdout (bash P ?c ?f)))")
    case Nil
    with assms have "exit_status (bash P ?c ?f) = 0 \<and>
        v = (if xcom_push_flag self
             then Some (map (line_of P self) (iter_readline (stdout (bash P ?c ?f))))
             else None)"
      unfolding execute_returned_kept [OF Inr kept] Let_def
      by (simp del: dropWhile_eq_Nil_conv split: if_splits)
    with sp show ?thesis
      by blast
  next
    case (Cons raw rest)
    with assms show ?thesis
      unfolding execute_returned_kept [OF Inr kept] Let_def by (simp del: dropWhile_eq_Nil_conv)
  qed
qed

theorem execute_returns_buffer_iff_capture_witness:
  "\<exists>c f. spawned (after (example_platform ''one  \<newline>two\<newline>'' 0) example_vars
             (example_operator True) example_world) = spawned example_world @ [(c, f)] \<and>
     exit_status (bash (example_platform ''one  \<newline>two\<newline>'' 0) c f) = 0 \<and>
     Some [u ''one'', u ''two''] =
       (if xcom_push_flag (example_operator True)
        then Some (map (line_of (example_platform ''one  \<newline>two\<newline>'' 0) (example_operator True))
               (iter_readline (stdout (bash (example_platform ''one  \<newline>two\<newline>'' 0) c f))))
        else None)"
  by (rule execute_returns_buffer_iff_capture [OF example_returned])

subsection \<open>The lines returned\<close>


lemma rstrip_stripped: "rstrip s = [] \<or> \<not> isspace (last (rstrip s))"
proof (cases "dropWhile isspace (rev s)")
  case Nil
  then show ?thesis by (simp add: rstrip_def)
next
  case (Cons c cs)
  then have "\<not> isspace c"
    using hd_dropWhile [of isspace "rev s"] by simp
  with Cons show ?thesis
    by (simp add: rstrip_def)
qed




subsection \<open>The temporary directory and the script\<close>







subsection \<open>The lines logged and captured\<close>

lemma rstrip_split: "\<exists>ws. s = rstrip s @ ws \<and> (\<forall>c \<in> set ws. isspace c)"
proof (intro exI conjI)
  have "rstrip s @ rev (takeWhile isspace (rev s)) =
      rev (takeWhile isspace (rev s) @ dropWhile isspace (rev s))"
    by (simp only: rstrip_def rev_append)
  also have "\<dots> = s"
    by simp
  finally show "s = rstrip s @ rev (takeWhile isspace (rev s))"
    by (rule sym)
  show "\<forall>c \<in> set (rev (takeWhile isspace (rev s))). isspace c"
    by (auto dest: set_takeWhileD)
qed

text \<open>
  Claim C10. The lines the loop gets through (those read before the first that does not
  decode) are logged one record each, in order, after the record \<^verbatim>\<open>Output:\<close>, and they
  are what a capturing call returns. None of them ends in white space, and each is the
  decoded text of its line less a trailing run of white space: spaces and tabs before
  the line terminator are removed with it.
\<close>

theorem captured_and_logged_lines_stripped:
  assumes "spawned (after P vars self w) = spawned w @ [(c, f)]"
  shows "let raws = takeWhile (decodes P self) (iter_readline (stdout (bash P c f)));
             lines = map (line_of P self) raws
         in (\<exists>ending.
               log (after P vars self w) =
                 log w @
                 [(INFO, u ''Tmp dir root location: \<newline> %s'', [AStr (gettempdir P)]),
                  (DEBUG, u ''Exporting the following env vars:\<newline>%s'',
                     [AStr (join (u ''\<newline>'') (map (\<lambda>(k, v). k @ u ''='' @ v) vars))]),
                  (INFO, u ''Temporary script location: %s'', [AStr (script P self w)]),
                  (INFO, u ''Running command: %s'', [AStr (bash_command self)]),
                  (INFO, u ''Output:'', [])] @
                 map (\<lambda>l. (INFO, l, [])) lines @ ending \<and>
               (ending = [] \<or>
                ending = [(INFO, u ''Command exited with return code %s'',
                            [AInt (exit_status (bash P c f))])])) \<and>
            (\<forall>buf. returned P vars self w = Inr (Some buf) \<longrightarrow> buf = lines) \<and>
            (\<forall>l \<in> set lines. l = [] \<or> \<not> isspace (last l)) \<and>
            (\<forall>raw \<in> set raws. \<exists>ws.
               projr (decode P (output_encoding self) raw) = line_of P self raw @ ws \<and>
               (\<forall>c \<in> set ws. isspace c))"
proof -
  from assms obtain data where enc: "utf8_encode (bash_command self) = Inr data"
    and c: "c = the_call P vars self w" and f: "f = start_fs P self w data"
    by (rule spawnedE)
  define all where "all = iter_readline (stdout (bash P c f))"
  define raws where "raws = takeWhile (decodes P self) all"
  define lines where "lines = map (line_of P self) raws"
  define ending where "ending =
    (if dropWhile (decodes P self) all = []
     then [(INFO, u ''Command exited with return code %s'', [AInt (exit_status (bash P c f))])]
     else [])"
  have lg: "log (after P vars self w) =
      log w @
      [(INFO, u ''Tmp dir root location: \<newline> %s'', [AStr (gettempdir P)]),
       (DEBUG, u ''Exporting the following env vars:\<newline>%s'',
          [AStr (join (u ''\<newline>'') (map (\<lambda>(k, v). k @ u ''='' @ v) vars))]),
       (INFO, u ''Temporary script location: %s'', [AStr (script P self w)]),
       (INFO, u ''Running command: %s'', [AStr (bash_command self)]),
       (INFO, u ''Output:'', [])] @
      map (\<lambda>l. (INFO, l, [])) lines @ ending"
    unfolding execute_log [OF enc] Let_def lines_def raws_def ending_def all_def c f
    by (rule refl)
  have en: "ending = [] \<or>
      ending = [(INFO, u ''Command exited with return code %s'', [AInt (exit_status (bash P c f))])]"
    by (simp add: ending_def)
  have buf: "buf = lines" if ret: "returned P vars self w = Inr (Some buf)" for buf
  proof -
    have "\<exists>left. child_fs (bash P (the_call P vars self w) (start_fs P self w data))
        (script P self w) = Some (File left)"
    proof (rule ccontr)
      assume "\<not> ?thesis"
      then have "\<forall>left. child_fs (bash P (the_call P vars self w) (start_fs P self w data))
          (script P self w) \<noteq> Some (File left)"
        by blast
      from execute_returned_gone [OF enc this] ret show False
        by simp
    qed
    then obtain left where kept: "child_fs (bash P (the_call P vars self w)
        (start_fs P self w data)) (script P self w) = Some (File left)"
      by blast
    show ?thesis
    proof (cases "dropWhile (decodes P self) all")
      case Nil
      then have "takeWhile (decodes P self) all = all"
        by simp
      with ret Nil show ?thesis
        unfolding execute_returned_kept [OF enc kept] Let_def lines_def raws_def all_def c f
        by (simp del: dropWhile_eq_Nil_conv takeWhile_eq_all_conv split: if_splits)
    next
      case (Cons raw rest)
      with ret show ?thesis
        unfolding execute_returned_kept [OF enc kept] Let_def all_def c f
        by (simp del: dropWhile_eq_Nil_conv)
    qed
  qed
  have st: "\<forall>l \<in> set lines. l = [] \<or> \<not> isspace (last l)"
    using rstrip_stripped by (auto simp: lines_def)
  have sp: "\<forall>raw \<in> set raws. \<exists>ws.
      projr (decode P (output_encoding self) raw) = line_of P self raw @ ws \<and>
      (\<forall>c \<in> set ws. isspace c)"
    using rstrip_split by blast
  from lg en buf st sp show ?thesis
    unfolding Let_def raws_def [symmetric, unfolded all_def] lines_def [symmetric]
    by blast
qed

theorem captured_and_logged_lines_stripped_witness:
  "\<exists>pre ending.
     log (after (example_platform ''one  \<newline>two\<newline>'' 0) example_vars (example_operator True)
       example_world) = pre @ [(INFO, u ''one'', []), (INFO, u ''two'', [])] @ ending"
proof -
  let ?P = "example_platform ''one  \<newline>two\<newline>'' 0"
  let ?self = "example_operator True"
  have lines: "map (line_of ?P ?self) (takeWhile (decodes ?P ?self)
      (iter_readline (stdout (bash ?P c f)))) = [u ''one'', u ''two'']" for c f
    unfolding example_stdout example_iter_readline example_fields
    apply (simp add: example_decode)
    apply (simp add: rstrip_def isspace_def u_def)
    done
  have sp: "spawned (after ?P example_vars ?self example_world) = spawned example_world @
      [(the_call ?P example_vars ?self example_world, start_fs ?P ?self example_world ''run'')]"
    by (rule execute_spawned [OF example_encodes])
  from captured_and_logged_lines_stripped [OF sp]
  obtain ending where "log (after ?P example_vars ?self example_world) =
      (log example_world @
       [(INFO, u ''Tmp dir root location: \<newline> %s'', [AStr (gettempdir ?P)]),
        (DEBUG, u ''Exporting the following env vars:\<newline>%s'',
           [AStr (join (u ''\<newline>'') (map (\<lambda>(k, v). k @ u ''='' @ v) example_vars))]),
        (INFO, u ''Temporary script location: %s'', [AStr (script ?P ?self example_world)]),
        (INFO, u ''Running command: %s'', [AStr (bash_command ?self)]),
        (INFO, u ''Output:'', [])]) @
      [(INFO, u ''one'', []), (INFO, u ''two'', [])] @ ending"
    unfolding Let_def lines by auto
  then show ?thesis
    by blast
qed

subsection \<open>What the call changes\<close>

text \<open>The dictionaries after a call: the one the child's environment was taken from has
  been updated with the context variables. With \<^verbatim>\<open>env\<close> set that is the operator's own
  dictionary (\<^verbatim>\<open>env = self.env\<close> makes no copy); with \<^verbatim>\<open>env\<close> unset it is the copy of the
  process environment. The other attributes of the request are left as they were.\<close>

lemma execute_heap:
  "heap (after P vars self w) =
     (case env self of
        None \<Rightarrow> (heap w)(next_addr w := dict_update (os_environ w) vars)
      | Some a \<Rightarrow> (heap w)(a := dict_update (heap w a) vars))"
proof (cases "utf8_encode (bash_command self)")
  case (Inl e)
  then have enc': "utf8_encode (bash_command (self\<lparr>lineage_data := Some (bash_command self)\<rparr>)) = Inl e"
    by simp
  show ?thesis
    by (cases "env self") (simp_all add: execute_unfold with_script_file_Inl [OF enc'])
next
  case (Inr data)
  then have enc': "utf8_encode (bash_command (self\<lparr>lineage_data := Some (bash_command self)\<rparr>)) = Inr data"
    by simp
  show ?thesis
    by (cases "env self")
       (simp_all add: execute_unfold with_script_file_Inr [OF enc']
          del: dropWhile_eq_Nil_conv takeWhile_eq_all_conv)
qed

lemma execute_request_fields:
  "bash_command (fst (snd (execute P vars self w))) = bash_command self \<and>
   env (fst (snd (execute P vars self w))) = env self \<and>
   xcom_push_flag (fst (snd (execute P vars self w))) = xcom_push_flag self \<and>
   output_encoding (fst (snd (execute P vars self w))) = output_encoding self \<and>
   task_id (fst (snd (execute P vars self w))) = task_id self"
proof (cases "utf8_encode (bash_command self)")
  case (Inl e)
  then have enc': "utf8_encode (bash_command (self\<lparr>lineage_data := Some (bash_command self)\<rparr>)) = Inl e"
    by simp
  show ?thesis
    by (cases "env self") (simp_all add: execute_unfold with_script_file_Inl [OF enc'])
next
  case (Inr data)
  then have enc': "utf8_encode (bash_command (self\<lparr>lineage_data := Some (bash_command self)\<rparr>)) = Inr data"
    by simp
  show ?thesis
    by (cases "env self")
       (simp_all add: execute_unfold with_script_file_Inr [OF enc']
          del: dropWhile_eq_Nil_conv takeWhile_eq_all_conv)
qed

text \<open>
  Claim C3, at an input where it fails: the operator was given the dictionary at
  address \<open>0\<close>, which maps \<^verbatim>\<open>AIRFLOW_CTX_DAG_ID\<close> to \<^verbatim>\<open>stale\<close>; after a call with the
  context variable \<^verbatim>\<open>AIRFLOW_CTX_DAG_ID=etl\<close> that same dictionary maps the name to
  \<^verbatim>\<open>etl\<close>.
\<close>

theorem execute_updates_supplied_env:
  "env (example_operator False) = Some 0 \<and>
   heap example_world 0 (u ''AIRFLOW_CTX_DAG_ID'') = Some (u ''stale'') \<and>
   heap (after (example_platform [] 0) example_vars (example_operator False) example_world) 0
     (u ''AIRFLOW_CTX_DAG_ID'') = Some (u ''etl'')"
  by (simp add: execute_heap example_fields example_world_def example_vars_def dict_update_def
      u_def)

end
